theory Spec2Isabelle
  imports Main "HOL-Library.Log_Nat"
begin

section \<open>Instants, local days and durations (utils/date-utils.ts)\<close>

text \<open>
  A JavaScript \<open>Date\<close> is modelled by its time value: the number of milliseconds since
  the epoch, an \<open>int\<close>. Comparisons of dates in the source (\<open>busy.start > current\<close>)
  compare these numbers. The host's time zone is a parameter \<open>tz\<close>: the offset of local
  time from UTC in milliseconds, taken to be the same for every instant (no daylight
  saving change inside the period looked at). Invalid dates are outside the model.
\<close>

type_synonym instant = int

definition msPerDay :: int where
  "msPerDay = 86400000"

text \<open>\<open>getStartOfDay\<close>: copy the date and \<open>setHours(0, 0, 0, 0)\<close>, local midnight.\<close>

definition getStartOfDay :: "int \<Rightarrow> instant \<Rightarrow> instant" where
  "getStartOfDay tz t = t - (t + tz) mod msPerDay"

text \<open>\<open>getEndOfDay\<close>: \<open>setHours(23, 59, 59, 999)\<close>.\<close>

definition getEndOfDay :: "int \<Rightarrow> instant \<Rightarrow> instant" where
  "getEndOfDay tz t = getStartOfDay tz t + (msPerDay - 1)"

text \<open>\<open>addDays\<close>: \<open>setDate(getDate() + days)\<close>, the same local clock time \<open>days\<close> later.\<close>

definition addDays :: "instant \<Rightarrow> int \<Rightarrow> instant" where
  "addDays t days = t + days * msPerDay"

text \<open>
  \<open>getDurationMinutes\<close>: \<open>Math.round((end.getTime() - start.getTime()) / 60000)\<close>.
  \<open>Math.round\<close> rounds to the nearest integer, a half towards plus infinity.
\<close>

definition getDurationMinutes :: "instant \<Rightarrow> instant \<Rightarrow> int" where
  "getDurationMinutes s e = (e - s + 30000) div 60000"

section \<open>Time slots (client/types.ts)\<close>

record TimeSlot =
  start :: instant
  endT :: instant
  duration :: int

text \<open>Clock times of day 0 in local time, for the examples: \<open>clock tz h m\<close> is h:m local.\<close>

definition clock :: "int \<Rightarrow> int \<Rightarrow> int \<Rightarrow> instant" where
  "clock tz h m = h * 3600000 + m * 60000 - tz"

definition slot :: "instant \<Rightarrow> instant \<Rightarrow> TimeSlot" where
  "slot s e = \<lparr>start = s, endT = e, duration = getDurationMinutes s e\<rparr>"

section \<open>Gap finder (client/calendar-client.ts, findGaps)\<close>

text \<open>
  The loop over \<open>busySlots\<close> carries the array \<open>gaps\<close> and the cursor \<open>current\<close>.
  Nothing is mutated but these two locals; the slots pushed are new objects.
\<close>

fun findGaps_loop :: "int \<Rightarrow> TimeSlot list \<Rightarrow> TimeSlot list \<Rightarrow> instant \<Rightarrow> TimeSlot list \<times> instant" where
  "findGaps_loop minDuration [] gaps current = (gaps, current)"
| "findGaps_loop minDuration (busy # rest) gaps current =
     (let gaps' =
        (if start busy > current then
           (let gapDuration = getDurationMinutes current (start busy) in
            if gapDuration \<ge> minDuration
            then gaps @ [\<lparr>start = current, endT = start busy, duration = gapDuration\<rparr>]
            else gaps)
         else gaps);
          current' = (if endT busy > current then endT busy else current)
      in findGaps_loop minDuration rest gaps' current')"

definition finalGap :: "int \<Rightarrow> instant \<Rightarrow> TimeSlot list \<times> instant \<Rightarrow> TimeSlot list" where
  "finalGap minDuration end st =
     (case st of (gaps, current) \<Rightarrow>
        if current < end then
          (let gapDuration = getDurationMinutes current end in
           if gapDuration \<ge> minDuration
           then gaps @ [\<lparr>start = current, endT = end, duration = gapDuration\<rparr>]
           else gaps)
        else gaps)"

definition findGaps :: "int \<Rightarrow> instant \<Rightarrow> instant \<Rightarrow> TimeSlot list \<Rightarrow> int \<Rightarrow> TimeSlot list" where
  "findGaps tz startW endW busySlots minDuration =
     finalGap minDuration endW (findGaps_loop minDuration busySlots [] (getStartOfDay tz startW))"

text \<open>
  utils/availability-helper.ts, \<open>findAvailableSlots\<close>: the same loop over the busy slots
  sorted by start (a stable sort of a copy), closed at the end of the last day.
\<close>

definition findAvailableSlots :: "int \<Rightarrow> TimeSlot list \<Rightarrow> instant \<Rightarrow> instant \<Rightarrow> int \<Rightarrow> TimeSlot list" where
  "findAvailableSlots tz busySlots startDate endDate minDuration =
     (let sorted = sort_key start busySlots
      in finalGap minDuration (getEndOfDay tz endDate)
           (findGaps_loop minDuration sorted [] (getStartOfDay tz startDate)))"

text \<open>
  The gap walk as the specification words it, from a given cursor: a candidate gap before
  each busy interval that starts after the cursor, the cursor moved to the larger of
  itself and the interval's end, and a final gap up to the end of the window.
\<close>

definition candidate :: "int \<Rightarrow> instant \<Rightarrow> instant \<Rightarrow> TimeSlot list" where
  "candidate minDuration c e =
     (if c < e \<and> minDuration \<le> getDurationMinutes c e then [slot c e] else [])"

fun gapsFrom :: "instant \<Rightarrow> instant \<Rightarrow> TimeSlot list \<Rightarrow> int \<Rightarrow> TimeSlot list" where
  "gapsFrom cursor windowEnd [] minDuration = candidate minDuration cursor windowEnd"
| "gapsFrom cursor windowEnd (busy # rest) minDuration =
     candidate minDuration cursor (start busy)
       @ gapsFrom (max cursor (endT busy)) windowEnd rest minDuration"

text \<open>Points and overlaps: a slot is the closed interval from its start to its end.\<close>

definition inside :: "instant \<Rightarrow> TimeSlot \<Rightarrow> bool" where
  "inside x s = (start s \<le> x \<and> x \<le> endT s)"

definition overlaps :: "TimeSlot \<Rightarrow> TimeSlot \<Rightarrow> bool" where
  "overlaps a b = (start a < endT b \<and> start b < endT a)"

text \<open>
  A merged busy list: every interval well formed, and every interval ends no later
  than any later one starts.
\<close>

fun mergedBusy :: "TimeSlot list \<Rightarrow> bool" where
  "mergedBusy [] = True"
| "mergedBusy (b # bs) =
     (start b \<le> endT b \<and> list_all (\<lambda>c. endT b \<le> start c) bs \<and> mergedBusy bs)"

section \<open>Interval merge on the object store (mergeTimeSlots)\<close>

text \<open>
  \<open>mergeTimeSlots\<close> writes to the slot objects it keeps, and those objects are the
  caller's: \<open>[...slots]\<close> copies the array, not its elements. So slots live in a store,
  an array is a list of references, and the merge returns the store it leaves behind
  together with the array it returns. Both source files hold the same function.
\<close>

type_synonym ref = nat
type_synonym store = "ref \<Rightarrow> TimeSlot"

fun merge_loop :: "ref list \<Rightarrow> store \<Rightarrow> ref list \<Rightarrow> store \<times> ref list" where
  "merge_loop [] h merged = (h, merged)"
| "merge_loop (current # rest) h merged =
     (let lst = last merged in
      if start (h current) \<le> endT (h lst) then
        (if endT (h current) > endT (h lst) then
           merge_loop rest
             (h(lst := (h lst)\<lparr>endT := endT (h current),
                               duration := getDurationMinutes (start (h lst)) (endT (h current))\<rparr>))
             merged
         else merge_loop rest h merged)
      else merge_loop rest h (merged @ [current]))"

definition mergeTimeSlots :: "store \<Rightarrow> ref list \<Rightarrow> store \<times> ref list" where
  "mergeTimeSlots h slots =
     (if slots = [] then (h, [])
      else (let sorted = sort_key (\<lambda>r. start (h r)) slots
            in merge_loop (tl sorted) h [hd sorted]))"

text \<open>Well-formed slots, and the shape of a kept list: each slot ends before the next starts.\<close>

definition wellFormed :: "TimeSlot \<Rightarrow> bool" where
  "wellFormed s = (start s \<le> endT s)"

definition separated :: "store \<Rightarrow> ref list \<Rightarrow> bool" where
  "separated h rs =
     (list_all (\<lambda>r. wellFormed (h r)) rs \<and> sorted_wrt (\<lambda>a b. endT (h a) < start (h b)) rs)"

section \<open>Regular expressions as the source uses them\<close>

text \<open>
  Text is a \<open>string\<close>: one \<open>char\<close> per UTF-16 code unit, so the model covers the
  texts whose code units are below 256. A pattern is matched the way the JavaScript engine
  does it, by backtracking: \<open>rmatch\<close> returns the states a pattern can end in, in the
  order the engine tries them (a greedy star tries one more round first, an alternative
  its left branch first). A state is the character before the position (for \<open>\b\<close>),
  the rest of the text and the groups captured so far. The flag \<open>ci\<close> is the \<open>i\<close> flag.
\<close>

datatype regex =
    Lit char                \<comment> \<open>a literal character\<close>
  | Digit                   \<comment> \<open>\<open>\d\<close>\<close>
  | Space                   \<comment> \<open>\<open>\s\<close>\<close>
  | OneOf "char list"       \<comment> \<open>a class \<open>[...]\<close>\<close>
  | Eps                     \<comment> \<open>the empty pattern\<close>
  | Seq regex regex
  | Alt regex regex         \<comment> \<open>\<open>a|b\<close>\<close>
  | Star regex              \<comment> \<open>greedy \<open>r*\<close>\<close>
  | Group nat regex         \<comment> \<open>the capture group of that number\<close>
  | WordB                   \<comment> \<open>\<open>\b\<close>\<close>
  | Eol                     \<comment> \<open>\<open>$\<close>, without the \<open>m\<close> flag\<close>

type_synonym mstate = "char option \<times> string \<times> (nat \<times> string) list"

text \<open>
  The character classes on code units below 256: \<open>\d\<close> is 0-9, \<open>\s\<close> is tab, line
  feed, vertical tab, form feed, carriage return, space and no-break space, a word
  character (for \<open>\b\<close>) is a letter a-z or A-Z, a digit or the underscore.
\<close>

definition isDigit :: "char \<Rightarrow> bool" where
  "isDigit c = (c \<in> set ''0123456789'')"

definition isSpace :: "char \<Rightarrow> bool" where
  "isSpace c = (of_char c \<in> set [9, 10, 11, 12, 13, 32, 160 :: nat])"

definition isWordChar :: "char \<Rightarrow> bool" where
  "isWordChar c = (let n = of_char c :: nat in
     (48 \<le> n \<and> n \<le> 57) \<or> (65 \<le> n \<and> n \<le> 90) \<or> n = 95 \<or> (97 \<le> n \<and> n \<le> 122))"

text \<open>
  \<open>toUpperCase\<close> and \<open>toLowerCase\<close> on one code unit below 256, where the result is again
  such a code unit: the letters a-z and the Latin-1 letters. Under the \<open>i\<close> flag two
  characters match when their upper-case forms are equal.
\<close>

definition toUpperChar :: "char \<Rightarrow> char" where
  "toUpperChar c = (let n = of_char c :: nat in
     if (97 \<le> n \<and> n \<le> 122) \<or> (224 \<le> n \<and> n \<le> 254 \<and> n \<noteq> 247) then char_of (n - 32) else c)"

definition toLowerChar :: "char \<Rightarrow> char" where
  "toLowerChar c = (let n = of_char c :: nat in
     if (65 \<le> n \<and> n \<le> 90) \<or> (192 \<le> n \<and> n \<le> 222 \<and> n \<noteq> 215) then char_of (n + 32) else c)"

definition canon :: "bool \<Rightarrow> char \<Rightarrow> char" where
  "canon ci c = (if ci then toUpperChar c else c)"

text \<open>One character that satisfies \<open>P\<close> is consumed.\<close>

fun step :: "(char \<Rightarrow> bool) \<Rightarrow> mstate \<Rightarrow> mstate list" where
  "step P (p, [], caps) = []"
| "step P (p, x # xs, caps) = (if P x then [(Some x, xs, caps)] else [])"

definition remaining :: "mstate \<Rightarrow> nat" where
  "remaining st = length (fst (snd st))"

text \<open>
  \<open>r*\<close>: one more round of \<open>r\<close> first, then stopping here. A round that consumes
  nothing is not repeated, so at most as many rounds as characters remain can follow.
\<close>

fun star_iter :: "(mstate \<Rightarrow> mstate list) \<Rightarrow> nat \<Rightarrow> mstate \<Rightarrow> mstate list" where
  "star_iter f 0 st = [st]"
| "star_iter f (Suc n) st =
     concat (map (star_iter f n) (filter (\<lambda>st'. remaining st' < remaining st) (f st))) @ [st]"

text \<open>A group records the text consumed between the state before and the state after.\<close>

definition capture :: "nat \<Rightarrow> mstate \<Rightarrow> mstate \<Rightarrow> mstate" where
  "capture n st st' =
     (case st of (p, s, caps) \<Rightarrow> case st' of (p', s', caps') \<Rightarrow>
        (p', s', (n, take (length s - length s') s) # caps'))"

definition atBoundary :: "mstate \<Rightarrow> bool" where
  "atBoundary st =
     (case st of (p, s, caps) \<Rightarrow>
        (case p of None \<Rightarrow> False | Some c \<Rightarrow> isWordChar c)
          \<noteq> (case s of [] \<Rightarrow> False | x # xs \<Rightarrow> isWordChar x))"

primrec rmatch :: "bool \<Rightarrow> regex \<Rightarrow> mstate \<Rightarrow> mstate list" where
  "rmatch ci (Lit c) st = step (\<lambda>x. canon ci x = canon ci c) st"
| "rmatch ci Digit st = step isDigit st"
| "rmatch ci Space st = step isSpace st"
| "rmatch ci (OneOf cs) st = step (\<lambda>x. canon ci x \<in> canon ci ` set cs) st"
| "rmatch ci Eps st = [st]"
| "rmatch ci (Seq a b) st = concat (map (rmatch ci b) (rmatch ci a st))"
| "rmatch ci (Alt a b) st = rmatch ci a st @ rmatch ci b st"
| "rmatch ci (Star r) st = star_iter (rmatch ci r) (remaining st) st"
| "rmatch ci (Group n r) st = map (capture n st) (rmatch ci r st)"
| "rmatch ci WordB st = (if atBoundary st then [st] else [])"
| "rmatch ci Eol st = (if fst (snd st) = [] then [st] else [])"

text \<open>
  \<open>RegExp.prototype.exec\<close> without the \<open>g\<close> flag (\<open>String.prototype.match\<close> and
  \<open>test\<close> go through it): the leftmost position where the pattern matches, and there the
  first match in the engine's order. \<open>exec\<close> returns the captured groups.
\<close>

fun exec_from :: "bool \<Rightarrow> regex \<Rightarrow> char option \<Rightarrow> string \<Rightarrow> mstate option" where
  "exec_from ci r p [] = (case rmatch ci r (p, [], []) of [] \<Rightarrow> None | m # ms \<Rightarrow> Some m)"
| "exec_from ci r p (x # xs) =
     (case rmatch ci r (p, x # xs, []) of [] \<Rightarrow> exec_from ci r (Some x) xs | m # ms \<Rightarrow> Some m)"

definition exec :: "bool \<Rightarrow> regex \<Rightarrow> string \<Rightarrow> (nat \<times> string) list option" where
  "exec ci r s = map_option (\<lambda>m. snd (snd m)) (exec_from ci r None s)"

definition test :: "bool \<Rightarrow> regex \<Rightarrow> string \<Rightarrow> bool" where
  "test ci r s = (exec ci r s \<noteq> None)"

text \<open>Shorthands to write the patterns down: a literal word, a sequence, alternatives,
  \<open>r?\<close>, \<open>r+\<close>, \<open>\s+\<close> and \<open>\s*\<close>.\<close>

definition str :: "string \<Rightarrow> regex" where
  "str s = foldr (\<lambda>c r. Seq (Lit c) r) s Eps"

definition seqs :: "regex list \<Rightarrow> regex" where
  "seqs rs = foldr Seq rs Eps"

fun alts :: "regex list \<Rightarrow> regex" where
  "alts [] = Eps"
| "alts [r] = r"
| "alts (r # rs) = Alt r (alts rs)"

definition opt :: "regex \<Rightarrow> regex" where
  "opt r = Alt r Eps"

definition oneOrMore :: "regex \<Rightarrow> regex" where
  "oneOrMore r = Seq r (Star r)"

definition ws1 :: regex where
  "ws1 = oneOrMore Space"

definition ws0 :: regex where
  "ws0 = Star Space"

definition grp :: "(nat \<times> string) list \<Rightarrow> nat \<Rightarrow> string" where
  "grp m n = (case map_of m n of Some t \<Rightarrow> t | None \<Rightarrow> [])"


section \<open>Intent classifier (utils/natural-language.ts)\<close>

datatype GCalendarCommand =
  Availability | Create | ListCmd | Get | Update | Delete | Block | Analyze | Auth

text \<open>
  \<open>INTENT_PATTERNS\<close>, in the order of the object literal (the order \<open>Object.entries\<close>
  walks it); every pattern has the \<open>i\<close> flag.
\<close>

definition apostrophe :: char where
  "apostrophe = CHR 0x27"

definition INTENT_PATTERNS :: "(GCalendarCommand \<times> regex list) list" where
  "INTENT_PATTERNS =
    [(Availability,
       [seqs [str ''find'', ws1, alts [str ''open'', str ''free'', str ''available''], ws0,
              opt (alts [str ''slot'', str ''time''])],
        seqs [str ''when'', ws1, alts [str ''is'', str ''are'', seqs [str ''can'', ws1, str ''i'']], ws1,
              alts [str ''i'', str ''we'', str ''everyone''], ws1, alts [str ''free'', str ''available'']],
        seqs [str ''show'', ws1, opt (seqs [str ''me'', ws1]),
              alts [str ''available'', str ''free'', str ''open''], ws1, str ''time''],
        seqs [str ''what'', Group 1 (alts [Seq (Lit apostrophe) (str ''s''), str '' is'']), ws1,
              opt (seqs [str ''my'', ws1]), alts [str ''free'', str ''available'']],
        seqs [str ''check'', ws1, opt (seqs [str ''my'', ws1]), str ''availability''],
        seqs [str ''find'', ws1, opt (seqs [str ''me'', ws1]), str ''time''],
        seqs [str ''free'', ws1, alts [str ''slot'', str ''time'']]]),
     (Create,
       [seqs [str ''schedule'', Space],
        seqs [str ''create'', ws1, opt (seqs [str ''a'', ws1]), opt (seqs [str ''new'', ws1]),
              alts [str ''meeting'', str ''event'', str ''appointment'']],
        seqs [str ''book'', Space],
        seqs [str ''add'', ws1, opt (seqs [str ''a'', ws1]),
              alts [str ''meeting'', str ''event'', str ''appointment'']],
        seqs [str ''set'', ws1, str ''up'', Space],
        seqs [str ''arrange'', Space],
        seqs [str ''plan'', Space]]),
     (ListCmd,
       [seqs [str ''what'', Group 1 (alts [Seq (Lit apostrophe) (str ''s''), str '' is'', str '' are'']), ws1,
              opt (alts [str ''on'', str ''my'']), ws0, opt (seqs [str ''my'', ws1]), str ''calendar''],
        seqs [str ''show'', ws1, opt (seqs [str ''me'', ws1]), opt (seqs [str ''my'', ws1]),
              opt (alts [str ''today'', seqs [str ''this'', ws1, str ''week''],
                         seqs [str ''this'', ws1, str ''month'']]),
              ws0, str ''schedule''],
        seqs [str ''list'', ws1, opt (seqs [str ''my'', ws1]),
              opt (alts [str ''today'', seqs [str ''this'', ws1, str ''week'']]), ws0,
              opt (alts [str ''events'', str ''meetings'', str ''appointments''])],
        seqs [str ''what'', ws1, str ''do'', ws1, str ''i'', ws1, str ''have''],
        seqs [str ''my'', ws1, opt (seqs [str ''upcoming'', ws1]), str ''events'']]),
     (Get,
       [seqs [str ''find'', ws1, opt (seqs [str ''my'', ws1]),
              alts [str ''meeting'', str ''event'', str ''appointment''], ws1,
              alts [str ''with'', str ''called'', str ''named'']],
        seqs [str ''get'', ws1, alts [str ''details'', str ''info''], opt (seqs [ws1, str ''for''])],
        seqs [str ''show'', ws1, opt (seqs [str ''me'', ws1]), alts [str ''details'', str ''info''],
              opt (seqs [ws1, str ''for''])],
        seqs [str ''look'', ws1, str ''up''],
        seqs [str ''search'', ws1, opt (seqs [str ''for'', ws1]), opt (seqs [str ''my'', ws1]),
              alts [str ''meeting'', str ''event'']]]),
     (Update,
       [seqs [str ''update'', Space],
        seqs [str ''change'', Space],
        seqs [str ''modify'', Space],
        seqs [str ''move'', Space],
        seqs [str ''reschedule'', Space],
        seqs [str ''edit'', Space],
        seqs [str ''shift'', Space],
        seqs [str ''reschedule'', Eol]]),
     (Delete,
       [seqs [str ''delete'', Space],
        seqs [str ''remove'', Space],
        seqs [str ''cancel'', Space],
        str ''unschedule'',
        seqs [str ''drop'', Space],
        seqs [str ''delete'', Eol],
        seqs [str ''remove'', Eol],
        seqs [str ''cancel'', Eol]]),
     (Block,
       [seqs [str ''block'', ws1, alts [str ''time'', str ''out'']],
        seqs [str ''mark'', ws1, opt (seqs [str ''me'', ws1]), opt (seqs [str ''as'', ws1]),
              alts [str ''busy'', str ''unavailable'']],
        seqs [str ''focus'', ws1, alts [str ''time'', str ''block'']],
        seqs [str ''out'', ws1, str ''of'', ws1, str ''office''],
        seqs [WordB, str ''ooo'', WordB],
        seqs [str ''do'', ws1, str ''not'', ws1, str ''disturb''],
        seqs [str ''reserve'', ws1, str ''time'']]),
     (Analyze,
       [str ''analyze'',
        seqs [str ''how'', ws1, alts [str ''much'', str ''many'']],
        seqs [str ''time'', ws1, alts [str ''usage'', str ''analysis'', str ''spent'']],
        seqs [str ''meeting'', ws1, alts [str ''load'', str ''count'', str ''distribution'']],
        seqs [str ''show'', ws1, opt (seqs [str ''my'', ws1]), alts [str ''time'', str ''meeting''], ws1,
              alts [str ''usage'', str ''analysis'', str ''stats'', str ''summary'']],
        str ''busiest'',
        seqs [str ''free'', ws1, str ''time'', ws1, alts [str ''this'', str ''next'']]]),
     (Auth,
       [str ''authenticate'',
        str ''login'',
        str ''authorize'',
        str ''connect''])]"

text \<open>
  \<open>detectIntent\<close>: the first category, in that order, one of whose patterns matches
  somewhere in the query; \<open>list\<close> when none does.
\<close>

fun detect :: "(GCalendarCommand \<times> regex list) list \<Rightarrow> string \<Rightarrow> GCalendarCommand" where
  "detect [] query = ListCmd"
| "detect ((intent, patterns) # rest) query =
     (if list_ex (\<lambda>pattern. test True pattern query) patterns then intent else detect rest query)"

definition detectIntent :: "string \<Rightarrow> GCalendarCommand" where
  "detectIntent query = detect INTENT_PATTERNS query"

section \<open>Durations and dates in text (utils/date-utils.ts)\<close>

text \<open>
  \<open>parseInt(s, 10)\<close> on the digits a \<open>(\d+)\<close> group captured. The result is the exact
  number (a JavaScript number keeps it exact up to \<open>2^53\<close>).
\<close>

definition digitValue :: "char \<Rightarrow> nat" where
  "digitValue c = of_char c - 48"

definition parseInt :: "string \<Rightarrow> nat" where
  "parseInt ds = foldl (\<lambda>n c. 10 * n + digitValue c) 0 ds"

text \<open>\<open>/(\d+)\s*(hour|hr|hours?)/i\<close> and \<open>/(\d+)\s*(minute|min|minutes?)/i\<close>.\<close>

definition hourPattern :: regex where
  "hourPattern =
     seqs [Group 1 (oneOrMore Digit), ws0,
           Group 2 (alts [str ''hour'', str ''hr'', Seq (str ''hour'') (opt (Lit CHR ''s''))])]"

definition minutePattern :: regex where
  "minutePattern =
     seqs [Group 1 (oneOrMore Digit), ws0,
           Group 2 (alts [str ''minute'', str ''min'', Seq (str ''minute'') (opt (Lit CHR ''s''))])]"

text \<open>The number in front of the matched unit, when the pattern matches.\<close>

definition hourNumber :: "string \<Rightarrow> nat option" where
  "hourNumber text = map_option (\<lambda>hourMatch. parseInt (grp hourMatch 1)) (exec True hourPattern text)"

definition minuteNumber :: "string \<Rightarrow> nat option" where
  "minuteNumber text =
     map_option (\<lambda>minuteMatch. parseInt (grp minuteMatch 1)) (exec True minutePattern text)"

text \<open>\<open>parseDuration\<close>; \<open>None\<close> is \<open>null\<close>.\<close>

definition parseDuration :: "string \<Rightarrow> nat option" where
  "parseDuration text =
     (let totalMinutes =
            (case hourNumber text of Some h \<Rightarrow> h * 60 | None \<Rightarrow> 0)
          + (case minuteNumber text of Some m \<Rightarrow> m | None \<Rightarrow> 0)
      in if totalMinutes > 0 then Some totalMinutes else None)"

text \<open>\<open>String.prototype.toLowerCase\<close> and \<open>includes\<close>.\<close>

definition toLowerCase :: "string \<Rightarrow> string" where
  "toLowerCase s = map toLowerChar s"

fun startsWith :: "string \<Rightarrow> string \<Rightarrow> bool" where
  "startsWith s [] = True"
| "startsWith [] (n # ns) = False"
| "startsWith (x # xs) (n # ns) = (x = n \<and> startsWith xs ns)"

fun includesStr :: "string \<Rightarrow> string \<Rightarrow> bool" where
  "includesStr [] needle = (needle = [])"
| "includesStr (x # xs) needle = (startsWith (x # xs) needle \<or> includesStr xs needle)"

text \<open>
  What \<open>parseDateExpression\<close> takes from its host: the time zone, the clock
  (\<open>new Date()\<close>), and two operations of the \<open>Date\<close> library that need the calendar,
  \<open>getFullYear\<close> and the constructor \<open>new Date(year, monthIndex, day)\<close>. They are
  parameters of the model.
\<close>

record host =
  hostTz :: int
  hostNow :: instant
  hostFullYear :: "instant \<Rightarrow> int"
  hostNewDate :: "int \<Rightarrow> int \<Rightarrow> int \<Rightarrow> instant"

text \<open>\<open>Date.prototype.getDay\<close>: the local day of the week, Sunday 0; day 0 was a Thursday.\<close>

definition getDay :: "int \<Rightarrow> instant \<Rightarrow> int" where
  "getDay tz t = ((t + tz) div msPerDay + 4) mod 7"

definition daysOfWeek :: "string list" where
  "daysOfWeek = [''sunday'', ''monday'', ''tuesday'', ''wednesday'', ''thursday'', ''friday'', ''saturday'']"

text \<open>\<open>Array.prototype.indexOf\<close>: -1 when the element is absent.\<close>

fun indexOf :: "string list \<Rightarrow> string \<Rightarrow> int" where
  "indexOf [] x = - 1"
| "indexOf (y # ys) x = (if x = y then 0 else (let i = indexOf ys x in if i < 0 then i else i + 1))"

text \<open>\<open>new RegExp(`(${daysOfWeek.join('|')})`)\<close>, no flag.\<close>

definition dayPattern :: regex where
  "dayPattern = Group 1 (alts (map str daysOfWeek))"

text \<open>\<open>/(\d{1,2})[\/\-](\d{1,2})[\/\-]?(\d{4})?/\<close>.\<close>

definition datePattern :: regex where
  "datePattern =
     seqs [Group 1 (Seq Digit (opt Digit)), OneOf ''/-'', Group 2 (Seq Digit (opt Digit)),
           opt (OneOf ''/-''), opt (Group 3 (seqs [Digit, Digit, Digit, Digit]))]"

definition daysUntilDay :: "int \<Rightarrow> int \<Rightarrow> int" where
  "daysUntilDay targetDay currentDay =
     (let daysUntil = targetDay - currentDay in if daysUntil \<le> 0 then daysUntil + 7 else daysUntil)"

text \<open>\<open>parseDateExpression\<close> of utils/date-utils.ts, the exported one.\<close>

definition parseDateExpression :: "host \<Rightarrow> string \<Rightarrow> instant option" where
  "parseDateExpression H text =
     (let today = hostNow H; lowerText = toLowerCase text in
      if includesStr lowerText ''today'' then Some (getStartOfDay (hostTz H) today)
      else if includesStr lowerText ''tomorrow'' then Some (getStartOfDay (hostTz H) (addDays today 1))
      else
        (case exec False dayPattern lowerText of
           Some dayMatch \<Rightarrow>
             (let targetDay = indexOf daysOfWeek (grp dayMatch 1);
                  currentDay = getDay (hostTz H) today
              in Some (getStartOfDay (hostTz H) (addDays today (daysUntilDay targetDay currentDay))))
         | None \<Rightarrow>
             (case exec False datePattern text of
                Some dateMatch \<Rightarrow>
                  (let month = int (parseInt (grp dateMatch 1)) - 1;
                       day = int (parseInt (grp dateMatch 2));
                       year = (case map_of dateMatch 3 of
                                 Some y \<Rightarrow> int (parseInt y)
                               | None \<Rightarrow> hostFullYear H today)
                   in Some (getStartOfDay (hostTz H) (hostNewDate H year month day)))
              | None \<Rightarrow> None)))"

text \<open>
  utils/natural-language.ts has a private function of the same name, the one
  \<open>extractEntities\<close> calls.
\<close>

definition nl_parseDateExpression :: "host \<Rightarrow> string \<Rightarrow> instant option" where
  "nl_parseDateExpression H text =
     (let today = hostNow H; lowerText = toLowerCase text in
      if includesStr lowerText ''today'' then Some (getStartOfDay (hostTz H) today)
      else if includesStr lowerText ''tomorrow'' then Some (addDays today 1)
      else
        (case exec False dayPattern lowerText of
           Some dayMatch \<Rightarrow>
             (let targetDay = indexOf daysOfWeek (grp dayMatch 1);
                  currentDay = getDay (hostTz H) today
              in Some (addDays today (daysUntilDay targetDay currentDay)))
         | None \<Rightarrow> None))"

text \<open>A date is normalized when it is a local midnight.\<close>

definition isMidnight :: "int \<Rightarrow> instant \<Rightarrow> bool" where
  "isMidnight tz t = ((t + tz) mod msPerDay = 0)"

section \<open>Numbers in hours: IEEE double arithmetic\<close>

text \<open>
  A finite double is modelled by the rational number it denotes. \<open>fl\<close> rounds a rational
  to the nearest double, ties to even: 53 significant bits, exponents down to the
  subnormal range; overflow to infinity is outside the model. The JavaScript operators
  \<open>/\<close> and \<open>-\<close> are the exact operation followed by \<open>fl\<close>. Minute counts are integers,
  where the arithmetic is exact.
\<close>

definition pow2 :: "int \<Rightarrow> rat" where
  "pow2 e = (if 0 \<le> e then 2 ^ nat e else 1 / 2 ^ nat (- e))"

text \<open>For \<open>q > 0\<close>, the exponent \<open>e\<close> with \<open>2^e \<le> q < 2^(e+1)\<close>.\<close>

definition ilog2 :: "rat \<Rightarrow> int" where
  "ilog2 q =
     (case quotient_of q of (a, b) \<Rightarrow>
        (let d = bitlen a - bitlen b in if pow2 d \<le> q then d else d - 1))"

definition roundHalfEven :: "rat \<Rightarrow> int" where
  "roundHalfEven q =
     (let f = \<lfloor>q\<rfloor>; r = q - of_int f
      in if r < 1 / 2 then f else if 1 / 2 < r then f + 1 else if even f then f else f + 1)"

definition fl :: "rat \<Rightarrow> rat" where
  "fl x =
     (if x = 0 then 0
      else (let e = max (ilog2 \<bar>x\<bar>) (- 1022); u = pow2 (e - 52)
            in of_int (roundHalfEven (x / u)) * u))"

definition fdiv :: "rat \<Rightarrow> rat \<Rightarrow> rat" where
  "fdiv a b = fl (a / b)"

definition fsub :: "rat \<Rightarrow> rat \<Rightarrow> rat" where
  "fsub a b = fl (a - b)"

section \<open>Time usage analysis (client/calendar-client.ts, analyzeTimeUsage)\<close>

text \<open>
  An event as the analysis reads it: \<open>evStart\<close> and \<open>evEnd\<close> are the instants that
  \<open>new Date(event.start.dateTime || event.start.date || '')\<close> and its counterpart for the
  end denote. \<open>None\<close> is an absent (or null) field.
\<close>

record CalendarEvent =
  summary :: string
  description :: "string option"
  evStart :: instant
  evEnd :: instant
  attendees :: "string list option"

definition meetingKeywords :: "string list" where
  "meetingKeywords =
     [''meeting'', ''standup'', ''sync'', ''review'', ''call'', ''discussion'',
      ''demo'', ''workshop'', ''training'', ''interview'', ''1:1'', ''one-on-one'']"

definition isMeetingEvent :: "CalendarEvent \<Rightarrow> bool" where
  "isMeetingEvent event =
     (if (case attendees event of Some as \<Rightarrow> length as > 0 | None \<Rightarrow> False) then True
      else (let text = toLowerCase (summary event @ '' ''
                         @ (case description event of Some d \<Rightarrow> d | None \<Rightarrow> []))
            in list_ex (\<lambda>keyword. includesStr text keyword) meetingKeywords))"

text \<open>\<open>toLocaleDateString('en-US', { weekday: 'long' })\<close>.\<close>

definition weekdayNames :: "string list" where
  "weekdayNames = [''Sunday'', ''Monday'', ''Tuesday'', ''Wednesday'', ''Thursday'', ''Friday'', ''Saturday'']"

definition weekdayLong :: "int \<Rightarrow> instant \<Rightarrow> string" where
  "weekdayLong tz t = weekdayNames ! nat (getDay tz t)"

text \<open>
  \<open>dayStats\<close> is an object keyed by the weekday name; its entries keep the order in
  which the keys were first set. An entry is the name, the minutes and the count.
\<close>

type_synonym dayStats = "(string \<times> int \<times> nat) list"

fun addToDay :: "string \<Rightarrow> int \<Rightarrow> dayStats \<Rightarrow> dayStats" where
  "addToDay dayKey d [] = [(dayKey, 0 + d, 0 + 1)]"
| "addToDay dayKey d ((k, minutes, count) # rest) =
     (if k = dayKey then (k, minutes + d, count + 1) # rest
      else (k, minutes, count) # addToDay dayKey d rest)"

record totals =
  totalMinutes :: int
  meetingMinutes :: int
  focusMinutes :: int
  stats :: dayStats

text \<open>The loop over the events.\<close>

fun accumulate :: "int \<Rightarrow> CalendarEvent list \<Rightarrow> totals \<Rightarrow> totals" where
  "accumulate tz [] acc = acc"
| "accumulate tz (event # rest) acc =
     (let d = getDurationMinutes (evStart event) (evEnd event);
          isMeeting = isMeetingEvent event
      in accumulate tz rest
           \<lparr>totalMinutes = totalMinutes acc + d,
            meetingMinutes = (if isMeeting then meetingMinutes acc + d else meetingMinutes acc),
            focusMinutes = (if isMeeting then focusMinutes acc else focusMinutes acc + d),
            stats = addToDay (weekdayLong tz (evStart event)) d (stats acc)\<rparr>)"

definition noTotals :: totals where
  "noTotals = \<lparr>totalMinutes = 0, meetingMinutes = 0, focusMinutes = 0, stats = []\<rparr>"

text \<open>The loop that finds the busiest day, from \<open>('', 0)\<close>.\<close>

fun busiest :: "dayStats \<Rightarrow> string \<times> int \<Rightarrow> string \<times> int" where
  "busiest [] best = best"
| "busiest ((day, minutes, count) # rest) (busiestDay, busiestMinutes) =
     (if minutes > busiestMinutes then busiest rest (day, minutes)
      else busiest rest (busiestDay, busiestMinutes))"

record TimeUsageSummary =
  totalHours :: rat
  meetingHours :: rat
  focusHours :: rat
  freeHours :: rat
  meetingCount :: nat
  busiestDay :: string
  dayBreakdown :: "(string \<times> rat \<times> nat) list"

definition summarize :: "int \<Rightarrow> CalendarEvent list \<Rightarrow> TimeUsageSummary" where
  "summarize tz events =
     (let acc = accumulate tz events noTotals;
          best = fst (busiest (stats acc) ([], 0));
          totalH = fdiv (of_int (totalMinutes acc)) 60;
          meetingH = fdiv (of_int (meetingMinutes acc)) 60;
          focusH = fdiv (of_int (focusMinutes acc)) 60;
          freeH = fsub (fsub totalH meetingH) focusH
      in \<lparr>totalHours = totalH,
          meetingHours = meetingH,
          focusHours = focusH,
          freeHours = max 0 freeH,
          meetingCount = length (filter isMeetingEvent events),
          busiestDay = (if best = [] then ''None'' else best),
          dayBreakdown = map (\<lambda>(day, minutes, count). (day, fdiv (of_int minutes) 60, count)) (stats acc)\<rparr>)"

text \<open>
  \<open>analyzeTimeUsage\<close>: the events come from \<open>listEvents\<close> for the window, a parameter
  here; a failed listing is passed on with its error message.
\<close>

datatype 'a CommandResult = Failure "string option" | Success 'a

definition analyzeTimeUsage ::
  "int \<Rightarrow> (instant \<Rightarrow> instant \<Rightarrow> CalendarEvent list CommandResult) \<Rightarrow> instant \<Rightarrow> instant
     \<Rightarrow> TimeUsageSummary CommandResult" where
  "analyzeTimeUsage tz listEvents startDate endDate =
     (case listEvents startDate endDate of
        Failure err \<Rightarrow> Failure err
      | Success events \<Rightarrow> Success (summarize tz events))"

text \<open>The examples: a store with the three slots 9:00-9:30, 9:15-10:00 and 14:00-15:00
  of day 0 (host on UTC), and the busy list 9:00-10:00, 14:00-15:00.\<close>

definition exampleStore :: store where
  "exampleStore =
     (\<lambda>r. slot 0 0)(0 := slot 32400000 34200000, 1 := slot 33300000 36000000,
                      2 := slot 50400000 54000000)"

definition exampleBusy :: "TimeSlot list" where
  "exampleBusy = [slot 32400000 36000000, slot 50400000 54000000]"

text \<open>An event with one attendee and no title, and an event titled "focus block" without
  attendees, each starting at \<open>s\<close> and lasting the given number of minutes.\<close>

definition meetingEvent :: "instant \<Rightarrow> int \<Rightarrow> CalendarEvent" where
  "meetingEvent s minutes =
     \<lparr>summary = [], description = None, evStart = s, evEnd = s + minutes * 60000,
      attendees = Some [''a@example.com'']\<rparr>"

definition focusEvent :: "instant \<Rightarrow> int \<Rightarrow> CalendarEvent" where
  "focusEvent s minutes =
     \<lparr>summary = ''focus block'', description = None, evStart = s, evEnd = s + minutes * 60000,
      attendees = None\<rparr>"

section \<open>The gap finder: proofs\<close>

text \<open>The loop with its two locals computes the walk from the cursor it starts with.\<close>

lemma findGaps_loop_gapsFrom:
  "finalGap d e (findGaps_loop d bs gaps c) = gaps @ gapsFrom c e bs d"
proof (induction bs arbitrary: gaps c)
  case Nil
  show ?case by (simp add: finalGap_def candidate_def slot_def Let_def)
next
  case (Cons b bs)
  show ?case
    by (simp add: Cons.IH candidate_def slot_def Let_def max_def)
qed

lemma gap_candidate_dur_nonneg: "c < e \<Longrightarrow> 0 \<le> getDurationMinutes c e"
  by (simp add: getDurationMinutes_def)

lemma gapsFrom_filter:
  "gapsFrom c e bs d = filter (\<lambda>g. d \<le> duration g) (gapsFrom c e bs 0)"
  by (induction bs arbitrary: c) (auto simp: candidate_def slot_def gap_candidate_dur_nonneg)

lemma gapsFrom_start_ge: "g \<in> set (gapsFrom c e bs d) \<Longrightarrow> c \<le> start g"
proof (induction bs arbitrary: c)
  case Nil
  then show ?case by (auto simp: candidate_def slot_def split: if_splits)
next
  case (Cons a bs)
  from Cons.prems consider
    "g \<in> set (candidate d c (start a))" | "g \<in> set (gapsFrom (max c (endT a)) e bs d)"
    by auto
  then show ?case
  proof cases
    case 1
    then show ?thesis by (auto simp: candidate_def slot_def split: if_splits)
  next
    case 2
    from Cons.IH[OF 2] show ?thesis by simp
  qed
qed

lemma gapsFrom_no_overlap:
  "mergedBusy bs \<Longrightarrow> g \<in> set (gapsFrom c e bs d) \<Longrightarrow> b \<in> set bs \<Longrightarrow> \<not> overlaps g b"
proof (induction bs arbitrary: c)
  case Nil
  then show ?case by simp
next
  case (Cons a bs)
  from Cons.prems(1) have wf: "start a \<le> endT a" and later: "\<forall>x\<in>set bs. endT a \<le> start x"
    and mb: "mergedBusy bs"
    by (simp_all add: list_all_iff)
  from Cons.prems(2) consider
    (cand) "g \<in> set (candidate d c (start a))" | (rec) "g \<in> set (gapsFrom (max c (endT a)) e bs d)"
    by auto
  then show ?case
  proof cases
    case cand
    then have g: "endT g = start a" by (auto simp: candidate_def slot_def split: if_splits)
    from Cons.prems(3) have "b = a \<or> b \<in> set bs" by simp
    then show ?thesis
    proof
      assume "b = a" with g show ?thesis by (simp add: overlaps_def)
    next
      assume "b \<in> set bs"
      with later have "endT a \<le> start b" by blast
      with wf g show ?thesis by (simp add: overlaps_def)
    qed
  next
    case rec
    from Cons.prems(3) have "b = a \<or> b \<in> set bs" by simp
    then show ?thesis
    proof
      assume ba: "b = a"
      from gapsFrom_start_ge[OF rec] have "endT a \<le> start g" by simp
      with ba show ?thesis by (simp add: overlaps_def)
    next
      assume "b \<in> set bs"
      with Cons.IH[OF mb rec] show ?thesis by blast
    qed
  qed
qed

lemma gapsFrom_cover:
  "c \<le> x \<Longrightarrow> x \<le> e \<Longrightarrow> c < x \<or> c < e \<Longrightarrow>
   (\<exists>g\<in>set (gapsFrom c e bs 0). inside x g) \<or> (\<exists>b\<in>set bs. inside x b)"
proof (induction bs arbitrary: c)
  case Nil
  then have "c < e" by linarith
  with Nil show ?case
    by (simp add: candidate_def slot_def inside_def gap_candidate_dur_nonneg)
next
  case (Cons a bs)
  show ?case
  proof (cases "inside x a")
    case True
    then show ?thesis by simp
  next
    case out: False
    show ?thesis
    proof (cases "c < start a \<and> x \<le> start a")
      case True
      with Cons.prems have "inside x (slot c (start a))" by (simp add: inside_def slot_def)
      with True show ?thesis by (simp add: candidate_def gap_candidate_dur_nonneg)
    next
      case False
      with out Cons.prems have 1: "max c (endT a) \<le> x" and 2: "max c (endT a) < x \<or> max c (endT a) < e"
        by (auto simp: inside_def max_def)
      from Cons.IH[OF 1 Cons.prems(2) 2] show ?thesis by auto
    qed
  qed
qed

lemma gapsFrom_duration_nonneg: "g \<in> set (gapsFrom c e bs d) \<Longrightarrow> 0 \<le> duration g"
proof (induction bs arbitrary: c)
  case Nil
  then show ?case
    by (auto simp: candidate_def slot_def gap_candidate_dur_nonneg split: if_splits)
next
  case (Cons a bs)
  from Cons.prems consider
    "g \<in> set (candidate d c (start a))" | "g \<in> set (gapsFrom (max c (endT a)) e bs d)"
    by auto
  then show ?case
  proof cases
    case 1
    then show ?thesis
      by (auto simp: candidate_def slot_def gap_candidate_dur_nonneg split: if_splits)
  next
    case 2
    from Cons.IH[OF 2] show ?thesis .
  qed
qed

lemma getStartOfDay_le: "getStartOfDay tz t \<le> t"
  by (simp add: getStartOfDay_def msPerDay_def)

lemmas interval_eval =
  findGaps_def finalGap_def slot_def getStartOfDay_def msPerDay_def getDurationMinutes_def
  clock_def exampleBusy_def Let_def

text \<open>
  C1 (as stated, refuted). With the host on UTC, \<open>findGaps(08:00, 18:00, [9:00-10:00,
  14:00-15:00], 60)\<close> does not start its first gap at 08:00: it returns 00:00-09:00 (540
  minutes), 10:00-14:00 and 15:00-18:00. With a minimum of 300 minutes it returns
  00:00-09:00 alone, not 10:00-14:00, which lasts 240 minutes.
\<close>

theorem findGaps_example_counterexample:
  "findGaps 0 28800000 64800000 exampleBusy 60
     = [\<lparr>start = 0, endT = 32400000, duration = 540\<rparr>,
        \<lparr>start = 36000000, endT = 50400000, duration = 240\<rparr>,
        \<lparr>start = 54000000, endT = 64800000, duration = 180\<rparr>]
   \<and> findGaps 0 28800000 64800000 exampleBusy 60
     \<noteq> [slot 28800000 32400000, slot 36000000 50400000, slot 54000000 64800000]
   \<and> findGaps 0 28800000 64800000 exampleBusy 300 = [\<lparr>start = 0, endT = 32400000, duration = 540\<rparr>]
   \<and> findGaps 0 28800000 64800000 exampleBusy 300 \<noteq> [slot 36000000 50400000]"
  by (simp add: interval_eval)

text \<open>
  C1 (amended). For every window, busy list and minimum duration, \<open>findGaps\<close> is the
  walk of the specification with the cursor started at the local midnight of the day of
  \<open>windowStart\<close>, not at \<open>windowStart\<close>: a candidate gap from the cursor to each busy
  start after it, kept when it lasts at least \<open>minDuration\<close>, the cursor moved to the
  larger of itself and the busy end, and a final gap to \<open>windowEnd\<close> under the same
  rule. In any time zone, for the window 08:00-18:00 and the busy list 9:00-10:00,
  14:00-15:00 it returns 00:00-09:00 (540), 10:00-14:00 (240), 15:00-18:00 (180) with a
  minimum of 60, and 00:00-09:00 alone with a minimum of 300.
\<close>

theorem findGaps_walk:
  "findGaps tz windowStart windowEnd busy minDuration
     = gapsFrom (getStartOfDay tz windowStart) windowEnd busy minDuration
   \<and> findGaps tz (clock tz 8 0) (clock tz 18 0)
        [slot (clock tz 9 0) (clock tz 10 0), slot (clock tz 14 0) (clock tz 15 0)] 60
     = [\<lparr>start = clock tz 0 0, endT = clock tz 9 0, duration = 540\<rparr>,
        \<lparr>start = clock tz 10 0, endT = clock tz 14 0, duration = 240\<rparr>,
        \<lparr>start = clock tz 15 0, endT = clock tz 18 0, duration = 180\<rparr>]
   \<and> findGaps tz (clock tz 8 0) (clock tz 18 0)
        [slot (clock tz 9 0) (clock tz 10 0), slot (clock tz 14 0) (clock tz 15 0)] 300
     = [\<lparr>start = clock tz 0 0, endT = clock tz 9 0, duration = 540\<rparr>]"
proof -
  have walk: "findGaps tz windowStart windowEnd busy minDuration
     = gapsFrom (getStartOfDay tz windowStart) windowEnd busy minDuration"
    unfolding findGaps_def using findGaps_loop_gapsFrom[of minDuration windowEnd busy "[]"] by simp
  have ex60: "findGaps tz (clock tz 8 0) (clock tz 18 0)
        [slot (clock tz 9 0) (clock tz 10 0), slot (clock tz 14 0) (clock tz 15 0)] 60
     = [\<lparr>start = clock tz 0 0, endT = clock tz 9 0, duration = 540\<rparr>,
        \<lparr>start = clock tz 10 0, endT = clock tz 14 0, duration = 240\<rparr>,
        \<lparr>start = clock tz 15 0, endT = clock tz 18 0, duration = 180\<rparr>]"
    by (simp add: interval_eval)
  have ex300: "findGaps tz (clock tz 8 0) (clock tz 18 0)
        [slot (clock tz 9 0) (clock tz 10 0), slot (clock tz 14 0) (clock tz 15 0)] 300
     = [\<lparr>start = clock tz 0 0, endT = clock tz 9 0, duration = 540\<rparr>]"
    by (simp add: interval_eval)
  from walk ex60 ex300 show ?thesis by (intro conjI)
qed

text \<open>The helper of utils/availability-helper.ts is the same walk over the sorted busy
  list, closed at the end of the day of \<open>endDate\<close>.\<close>

lemma findAvailableSlots_walk:
  "findAvailableSlots tz busy startDate endDate minDuration
     = gapsFrom (getStartOfDay tz startDate) (getEndOfDay tz endDate) (sort_key start busy) minDuration"
  unfolding findAvailableSlots_def
  using findGaps_loop_gapsFrom[of minDuration "getEndOfDay tz endDate" "sort_key start busy" "[]"]
  by (simp add: Let_def)

text \<open>
  C2 (as stated, refuted). Host on UTC, window 00:00-02:00, one busy interval
  00:30-01:30, minimum 60 minutes: both free stretches last 30 minutes, no gap is
  returned, and 00:10 lies in the window, in no gap and in no busy interval.
\<close>

theorem findGaps_cover_counterexample:
  "mergedBusy [slot 1800000 5400000]
   \<and> findGaps 0 0 7200000 [slot 1800000 5400000] 60 = []
   \<and> (0::int) \<le> 600000 \<and> (600000::int) \<le> 7200000
   \<and> \<not> inside 600000 (slot 1800000 5400000)"
  by (simp add: interval_eval inside_def)

text \<open>
  C2 (amended). For every window and every merged busy list \<open>B\<close> (well-formed
  intervals, each ending no later than the later ones start): no returned gap overlaps
  a busy interval of \<open>B\<close>, whatever the minimum duration; the gaps returned are the ones
  returned for the minimum 0 that last at least \<open>minDuration\<close> (in rounded minutes); and
  when \<open>minDuration \<le> 0\<close> and \<open>W0 < W1\<close>, every instant of \<open>[W0, W1]\<close> lies in a returned
  gap or in a busy interval of \<open>B\<close>. Free stretches shorter than a positive
  \<open>minDuration\<close> are left uncovered.
\<close>

theorem findGaps_partition:
  assumes "mergedBusy B"
  shows "(\<forall>g\<in>set (findGaps tz W0 W1 B minDuration). \<forall>b\<in>set B. \<not> overlaps g b)
    \<and> findGaps tz W0 W1 B minDuration
        = filter (\<lambda>g. minDuration \<le> duration g) (findGaps tz W0 W1 B 0)
    \<and> (minDuration \<le> 0 \<and> W0 < W1 \<longrightarrow>
         (\<forall>x. W0 \<le> x \<and> x \<le> W1 \<longrightarrow>
            (\<exists>g\<in>set (findGaps tz W0 W1 B minDuration). inside x g) \<or> (\<exists>b\<in>set B. inside x b)))"
proof -
  let ?c = "getStartOfDay tz W0"
  have walk: "\<And>d. findGaps tz W0 W1 B d = gapsFrom ?c W1 B d"
    unfolding findGaps_def using findGaps_loop_gapsFrom[of _ W1 B "[]"] by simp
  have no_overlap: "\<forall>g\<in>set (findGaps tz W0 W1 B minDuration). \<forall>b\<in>set B. \<not> overlaps g b"
    using gapsFrom_no_overlap[OF assms] by (auto simp: walk)
  have filtered: "findGaps tz W0 W1 B minDuration
        = filter (\<lambda>g. minDuration \<le> duration g) (findGaps tz W0 W1 B 0)"
    using gapsFrom_filter[of ?c W1 B minDuration] by (simp add: walk)
  have cover: "(\<exists>g\<in>set (findGaps tz W0 W1 B minDuration). inside x g) \<or> (\<exists>b\<in>set B. inside x b)"
    if d: "minDuration \<le> 0" and w: "W0 < W1" and x: "W0 \<le> x" "x \<le> W1" for x
  proof -
    have all: "filter (\<lambda>g. minDuration \<le> duration g) (gapsFrom ?c W1 B 0) = gapsFrom ?c W1 B 0"
    proof (rule filter_True, rule ballI)
      fix g assume "g \<in> set (gapsFrom ?c W1 B 0)"
      from gapsFrom_duration_nonneg[OF this] d show "minDuration \<le> duration g" by simp
    qed
    have same: "findGaps tz W0 W1 B minDuration = gapsFrom ?c W1 B 0"
      using filtered all by (simp add: walk)
    have "?c \<le> x" using getStartOfDay_le[of tz W0] x(1) by simp
    moreover have "?c < x \<or> ?c < W1" using getStartOfDay_le[of tz W0] w by simp
    ultimately show ?thesis
      using gapsFrom_cover[of ?c x W1 B] x(2) by (simp add: same)
  qed
  from no_overlap filtered cover show ?thesis by blast
qed

theorem findGaps_partition_witness:
  "mergedBusy exampleBusy
   \<and> \<not> overlaps \<lparr>start = 36000000, endT = 50400000, duration = 240\<rparr> (slot 32400000 36000000)
   \<and> findGaps 0 28800000 64800000 exampleBusy 0
       = filter (\<lambda>g. 0 \<le> duration g) (findGaps 0 28800000 64800000 exampleBusy 0)
   \<and> (inside 40000000 \<lparr>start = 36000000, endT = 50400000, duration = 240\<rparr>
        \<or> inside 40000000 (slot 32400000 36000000))"
proof -
  have m: "mergedBusy exampleBusy" by (simp add: exampleBusy_def slot_def)
  from findGaps_partition[OF m, of 0 28800000 64800000 0] show ?thesis
    using m by (simp add: interval_eval overlaps_def inside_def)
qed

section \<open>The interval merge: proofs\<close>

lemma separated_snoc:
  "separated h (ms @ [l]) \<Longrightarrow> wellFormed (h c) \<Longrightarrow> endT (h l) < start (h c) \<Longrightarrow> separated h ((ms @ [l]) @ [c])"
  unfolding separated_def
  by (auto simp: sorted_wrt_append list_all_iff wellFormed_def) 

lemma separated_extend:
  assumes "separated h (ms @ [l])" "endT (h l) < e"
  shows "separated (h(l := (h l)\<lparr>endT := e, duration := d\<rparr>)) (ms @ [l])"
proof -
  from assms(1) have wl: "start (h l) \<le> endT (h l)"
    and bef: "\<forall>x\<in>set ms. endT (h x) < start (h l)"
    and wms: "\<forall>x\<in>set ms. start (h x) \<le> endT (h x)"
    and sms: "sorted_wrt (\<lambda>a b. endT (h a) < start (h b)) ms"
    unfolding separated_def by (auto simp: sorted_wrt_append list_all_iff wellFormed_def)
  have nl: "l \<notin> set ms"
  proof
    assume "l \<in> set ms"
    with bef have "endT (h l) < start (h l)" by blast
    with wl show False by simp
  qed
  let ?h = "h(l := (h l)\<lparr>endT := e, duration := d\<rparr>)"
  from nl have same: "\<forall>x\<in>set ms. ?h x = h x" by auto
  have "sorted_wrt (\<lambda>a b. endT (?h a) < start (?h b)) ms"
    using sms same by (auto elim!: sorted_wrt_mono_rel[rotated])
  moreover have "\<forall>x\<in>set ms. endT (?h x) < start (?h l)" using bef same by simp
  moreover have "\<forall>x\<in>set ms. start (?h x) \<le> endT (?h x)" using wms same by simp
  moreover have "start (?h l) \<le> endT (?h l)" using wl assms(2) by simp
  ultimately show ?thesis
    unfolding separated_def by (simp add: sorted_wrt_append list_all_iff wellFormed_def)
qed

lemma merge_loop_separated:
  "separated h (ms @ [l]) \<Longrightarrow> list_all (\<lambda>r. wellFormed (h r)) rest \<Longrightarrow>
   merge_loop rest h (ms @ [l]) = (h', m') \<Longrightarrow> separated h' m' \<and> m' \<noteq> []"
proof (induction rest arbitrary: h ms l)
  case Nil
  then show ?case by auto
next
  case (Cons c rest)
  show ?case
  proof (cases "start (h c) \<le> endT (h l)")
    case ov: True
    show ?thesis
    proof (cases "endT (h c) > endT (h l)")
      case True
      let ?h = "h(l := (h l)\<lparr>endT := endT (h c), duration := getDurationMinutes (start (h l)) (endT (h c))\<rparr>)"
      have s: "separated ?h (ms @ [l])" using separated_extend[OF Cons.prems(1) True] .
      have w: "list_all (\<lambda>r. wellFormed (?h r)) rest"
        using Cons.prems(1,2) True unfolding separated_def
        by (auto simp: list_all_iff wellFormed_def)
      from Cons.prems(3) ov True have "merge_loop rest ?h (ms @ [l]) = (h', m')" by (simp add: Let_def)
      from Cons.IH[OF s w this] show ?thesis .
    next
      case False
      from Cons.prems(2) have w: "list_all (\<lambda>r. wellFormed (h r)) rest" by simp
      from Cons.prems(3) ov False have "merge_loop rest h (ms @ [l]) = (h', m')" by (simp add: Let_def)
      from Cons.IH[OF Cons.prems(1) w this] show ?thesis .
    qed
  next
    case False
    from Cons.prems(2) have w: "list_all (\<lambda>r. wellFormed (h r)) rest" and wc: "wellFormed (h c)" by simp_all
    from False have "endT (h l) < start (h c)" by simp
    from separated_snoc[OF Cons.prems(1) wc this] have s: "separated h ((ms @ [l]) @ [c])" .
    from Cons.prems(3) False have "merge_loop rest h ((ms @ [l]) @ [c]) = (h', m')" by (simp add: Let_def)
    from Cons.IH[OF s w this] show ?thesis .
  qed
qed

lemma merge_loop_noop:
  "separated h (pre @ rest) \<Longrightarrow> pre \<noteq> [] \<Longrightarrow> merge_loop rest h pre = (h, pre @ rest)"
proof (induction rest arbitrary: pre)
  case Nil
  then show ?case by simp
next
  case (Cons c rest)
  from Cons.prems have "endT (h (last pre)) < start (h c)"
    unfolding separated_def by (auto simp: sorted_wrt_append)
  moreover from Cons.prems have "merge_loop rest h (pre @ [c]) = (h, (pre @ [c]) @ rest)"
    by (intro Cons.IH) auto
  ultimately show ?case by (simp add: Let_def)
qed

lemma separated_sorted: "separated h ms \<Longrightarrow> sorted (map (\<lambda>r. start (h r)) ms)"
proof -
  assume s: "separated h ms"
  then have w: "\<forall>r\<in>set ms. start (h r) \<le> endT (h r)"
    and c: "sorted_wrt (\<lambda>a b. endT (h a) < start (h b)) ms"
    by (simp_all add: separated_def list_all_iff wellFormed_def)
  have "sorted_wrt (\<lambda>a b. start (h a) \<le> start (h b)) ms"
  proof (rule sorted_wrt_mono_rel[OF _ c])
    fix a b assume "a \<in> set ms" "b \<in> set ms" "endT (h a) < start (h b)"
    with w show "start (h a) \<le> start (h b)" by fastforce
  qed
  then show ?thesis by (simp add: sorted_map)
qed

lemma mergeTimeSlots_fixed: "separated h ms \<Longrightarrow> mergeTimeSlots h ms = (h, ms)"
proof (cases ms)
  case Nil
  then show ?thesis by (simp add: mergeTimeSlots_def)
next
  case (Cons a as)
  assume s: "separated h ms"
  then have "sort_key (\<lambda>r. start (h r)) ms = ms"
    by (intro sort_key_id_if_sorted separated_sorted)
  moreover from s Cons have "merge_loop as h [a] = (h, [a] @ as)"
    by (intro merge_loop_noop) auto
  ultimately show ?thesis using Cons by (simp add: mergeTimeSlots_def)
qed

lemma mergeTimeSlots_separated:
  assumes "list_all (\<lambda>r. wellFormed (h r)) S" "mergeTimeSlots h S = (h1, m1)"
  shows "separated h1 m1"
proof (cases "S = []")
  case True
  with assms show ?thesis by (auto simp: mergeTimeSlots_def separated_def)
next
  case False
  let ?s = "sort_key (\<lambda>r. start (h r)) S"
  from False have ne: "?s \<noteq> []" by (metis length_sort list.size(3) length_0_conv)
  then obtain a as where sa: "?s = a # as" by (cases ?s) auto
  have all: "list_all (\<lambda>r. wellFormed (h r)) ?s" using assms(1) by (simp add: list_all_iff)
  with sa have 1: "separated h ([] @ [a])" and 2: "list_all (\<lambda>r. wellFormed (h r)) as"
    by (simp_all add: separated_def)
  from assms(2) False sa have "merge_loop as h ([] @ [a]) = (h1, m1)"
    by (simp add: mergeTimeSlots_def)
  from merge_loop_separated[OF 1 2 this] show ?thesis by simp
qed

lemmas merge_eval =
  mergeTimeSlots_def exampleStore_def slot_def getDurationMinutes_def wellFormed_def Let_def

text \<open>
  C3. For every list of well-formed intervals (each with start \<open>\<le>\<close> end), merging the
  result of a merge changes nothing: the second call returns the same list of the same
  slots and leaves every slot as the first call left it.
\<close>

theorem mergeTimeSlots_idempotent:
  assumes "list_all (\<lambda>r. wellFormed (h r)) S"
  shows "(case mergeTimeSlots h S of (h1, m1) \<Rightarrow> mergeTimeSlots h1 m1 = (h1, m1))"
proof -
  obtain h1 m1 where r: "mergeTimeSlots h S = (h1, m1)" by (cases "mergeTimeSlots h S")
  from mergeTimeSlots_separated[OF assms r] have "separated h1 m1" .
  from mergeTimeSlots_fixed[OF this] r show ?thesis by simp
qed

theorem mergeTimeSlots_idempotent_witness:
  "list_all (\<lambda>r. wellFormed (exampleStore r)) [2, 1, 0]
   \<and> snd (mergeTimeSlots exampleStore [2, 1, 0]) = [0, 2]
   \<and> (case mergeTimeSlots exampleStore [2, 1, 0] of (h1, m1) \<Rightarrow> mergeTimeSlots h1 m1 = (h1, m1))"
proof -
  have w: "list_all (\<lambda>r. wellFormed (exampleStore r)) [2, 1, 0]" by (simp add: merge_eval)
  have "snd (mergeTimeSlots exampleStore [2, 1, 0]) = [0, 2]" by (simp add: merge_eval)
  with w mergeTimeSlots_idempotent[OF w] show ?thesis by simp
qed

text \<open>
  C7 (the code departs from it). The claim: the merge never changes the start, end or
  duration of a slot of its input. On the input 9:00-9:30, 9:15-10:00 the first slot,
  which the caller still holds, ends at 10:00 and lasts 60 minutes after the call.
\<close>

theorem mergeTimeSlots_writes_input:
  "exampleStore 0 = \<lparr>start = 32400000, endT = 34200000, duration = 30\<rparr>
   \<and> fst (mergeTimeSlots exampleStore [0, 1]) 0 = \<lparr>start = 32400000, endT = 36000000, duration = 60\<rparr>
   \<and> snd (mergeTimeSlots exampleStore [0, 1]) = [0]"
  by (simp add: merge_eval)

section \<open>Text: evaluation rules\<close>

text \<open>
  The character classes and case mappings on the characters of the examples, computed
  once, so that the examples below evaluate by rewriting.
\<close>

lemma char_facts:
  "canon True CHR ''a'' = CHR ''A''" "canon True CHR ''b'' = CHR ''B''"
  "canon True CHR ''c'' = CHR ''C''" "canon True CHR ''d'' = CHR ''D''"
  "canon True CHR ''e'' = CHR ''E''" "canon True CHR ''f'' = CHR ''F''"
  "canon True CHR ''g'' = CHR ''G''" "canon True CHR ''h'' = CHR ''H''"
  "canon True CHR ''i'' = CHR ''I''" "canon True CHR ''j'' = CHR ''J''"
  "canon True CHR ''k'' = CHR ''K''" "canon True CHR ''l'' = CHR ''L''"
  "canon True CHR ''m'' = CHR ''M''" "canon True CHR ''n'' = CHR ''N''"
  "canon True CHR ''o'' = CHR ''O''" "canon True CHR ''p'' = CHR ''P''"
  "canon True CHR ''q'' = CHR ''Q''" "canon True CHR ''r'' = CHR ''R''"
  "canon True CHR ''s'' = CHR ''S''" "canon True CHR ''t'' = CHR ''T''"
  "canon True CHR ''u'' = CHR ''U''" "canon True CHR ''v'' = CHR ''V''"
  "canon True CHR ''w'' = CHR ''W''" "canon True CHR ''x'' = CHR ''X''"
  "canon True CHR ''y'' = CHR ''Y''" "canon True CHR ''z'' = CHR ''Z''"
  "canon True CHR ''0'' = CHR ''0''" "canon True CHR ''1'' = CHR ''1''"
  "canon True CHR ''2'' = CHR ''2''" "canon True CHR ''3'' = CHR ''3''"
  "canon True CHR ''4'' = CHR ''4''" "canon True CHR ''5'' = CHR ''5''"
  "canon True CHR ''6'' = CHR ''6''" "canon True CHR ''7'' = CHR ''7''"
  "canon True CHR ''8'' = CHR ''8''" "canon True CHR ''9'' = CHR ''9''"
  "canon True CHR '' '' = CHR '' ''" "canon True CHR ''/'' = CHR ''/''"
  "canon True CHR ''-'' = CHR ''-''" "canon True CHR '':'' = CHR '':''"
  "isSpace CHR ''a'' = False" "isSpace CHR ''b'' = False" "isSpace CHR ''c'' = False"
  "isSpace CHR ''d'' = False" "isSpace CHR ''e'' = False" "isSpace CHR ''f'' = False"
  "isSpace CHR ''g'' = False" "isSpace CHR ''h'' = False" "isSpace CHR ''i'' = False"
  "isSpace CHR ''j'' = False" "isSpace CHR ''k'' = False" "isSpace CHR ''l'' = False"
  "isSpace CHR ''m'' = False" "isSpace CHR ''n'' = False" "isSpace CHR ''o'' = False"
  "isSpace CHR ''p'' = False" "isSpace CHR ''q'' = False" "isSpace CHR ''r'' = False"
  "isSpace CHR ''s'' = False" "isSpace CHR ''t'' = False" "isSpace CHR ''u'' = False"
  "isSpace CHR ''v'' = False" "isSpace CHR ''w'' = False" "isSpace CHR ''x'' = False"
  "isSpace CHR ''y'' = False" "isSpace CHR ''z'' = False" "isSpace CHR ''0'' = False"
  "isSpace CHR ''1'' = False" "isSpace CHR ''2'' = False" "isSpace CHR ''3'' = False"
  "isSpace CHR ''4'' = False" "isSpace CHR ''5'' = False" "isSpace CHR ''6'' = False"
  "isSpace CHR ''7'' = False" "isSpace CHR ''8'' = False" "isSpace CHR ''9'' = False"
  "isSpace CHR '' '' = True" "isSpace CHR ''/'' = False" "isSpace CHR ''-'' = False"
  "isSpace CHR '':'' = False" "isDigit CHR ''a'' = False" "isDigit CHR ''b'' = False"
  "isDigit CHR ''c'' = False" "isDigit CHR ''d'' = False" "isDigit CHR ''e'' = False"
  "isDigit CHR ''f'' = False" "isDigit CHR ''g'' = False" "isDigit CHR ''h'' = False"
  "isDigit CHR ''i'' = False" "isDigit CHR ''j'' = False" "isDigit CHR ''k'' = False"
  "isDigit CHR ''l'' = False" "isDigit CHR ''m'' = False" "isDigit CHR ''n'' = False"
  "isDigit CHR ''o'' = False" "isDigit CHR ''p'' = False" "isDigit CHR ''q'' = False"
  "isDigit CHR ''r'' = False" "isDigit CHR ''s'' = False" "isDigit CHR ''t'' = False"
  "isDigit CHR ''u'' = False" "isDigit CHR ''v'' = False" "isDigit CHR ''w'' = False"
  "isDigit CHR ''x'' = False" "isDigit CHR ''y'' = False" "isDigit CHR ''z'' = False"
  "isDigit CHR ''0'' = True" "isDigit CHR ''1'' = True" "isDigit CHR ''2'' = True"
  "isDigit CHR ''3'' = True" "isDigit CHR ''4'' = True" "isDigit CHR ''5'' = True"
  "isDigit CHR ''6'' = True" "isDigit CHR ''7'' = True" "isDigit CHR ''8'' = True"
  "isDigit CHR ''9'' = True" "isDigit CHR '' '' = False" "isDigit CHR ''/'' = False"
  "isDigit CHR ''-'' = False" "isDigit CHR '':'' = False" "isWordChar CHR ''a'' = True"
  "isWordChar CHR ''b'' = True" "isWordChar CHR ''c'' = True" "isWordChar CHR ''d'' = True"
  "isWordChar CHR ''e'' = True" "isWordChar CHR ''f'' = True" "isWordChar CHR ''g'' = True"
  "isWordChar CHR ''h'' = True" "isWordChar CHR ''i'' = True" "isWordChar CHR ''j'' = True"
  "isWordChar CHR ''k'' = True" "isWordChar CHR ''l'' = True" "isWordChar CHR ''m'' = True"
  "isWordChar CHR ''n'' = True" "isWordChar CHR ''o'' = True" "isWordChar CHR ''p'' = True"
  "isWordChar CHR ''q'' = True" "isWordChar CHR ''r'' = True" "isWordChar CHR ''s'' = True"
  "isWordChar CHR ''t'' = True" "isWordChar CHR ''u'' = True" "isWordChar CHR ''v'' = True"
  "isWordChar CHR ''w'' = True" "isWordChar CHR ''x'' = True" "isWordChar CHR ''y'' = True"
  "isWordChar CHR ''z'' = True" "isWordChar CHR ''0'' = True" "isWordChar CHR ''1'' = True"
  "isWordChar CHR ''2'' = True" "isWordChar CHR ''3'' = True" "isWordChar CHR ''4'' = True"
  "isWordChar CHR ''5'' = True" "isWordChar CHR ''6'' = True" "isWordChar CHR ''7'' = True"
  "isWordChar CHR ''8'' = True" "isWordChar CHR ''9'' = True" "isWordChar CHR '' '' = False"
  "isWordChar CHR ''/'' = False" "isWordChar CHR ''-'' = False" "isWordChar CHR '':'' = False"
  "toLowerChar CHR ''a'' = CHR ''a''" "toLowerChar CHR ''b'' = CHR ''b''"
  "toLowerChar CHR ''c'' = CHR ''c''" "toLowerChar CHR ''d'' = CHR ''d''"
  "toLowerChar CHR ''e'' = CHR ''e''" "toLowerChar CHR ''f'' = CHR ''f''"
  "toLowerChar CHR ''g'' = CHR ''g''" "toLowerChar CHR ''h'' = CHR ''h''"
  "toLowerChar CHR ''i'' = CHR ''i''" "toLowerChar CHR ''j'' = CHR ''j''"
  "toLowerChar CHR ''k'' = CHR ''k''" "toLowerChar CHR ''l'' = CHR ''l''"
  "toLowerChar CHR ''m'' = CHR ''m''" "toLowerChar CHR ''n'' = CHR ''n''"
  "toLowerChar CHR ''o'' = CHR ''o''" "toLowerChar CHR ''p'' = CHR ''p''"
  "toLowerChar CHR ''q'' = CHR ''q''" "toLowerChar CHR ''r'' = CHR ''r''"
  "toLowerChar CHR ''s'' = CHR ''s''" "toLowerChar CHR ''t'' = CHR ''t''"
  "toLowerChar CHR ''u'' = CHR ''u''" "toLowerChar CHR ''v'' = CHR ''v''"
  "toLowerChar CHR ''w'' = CHR ''w''" "toLowerChar CHR ''x'' = CHR ''x''"
  "toLowerChar CHR ''y'' = CHR ''y''" "toLowerChar CHR ''z'' = CHR ''z''"
  "toLowerChar CHR ''0'' = CHR ''0''" "toLowerChar CHR ''1'' = CHR ''1''"
  "toLowerChar CHR ''2'' = CHR ''2''" "toLowerChar CHR ''3'' = CHR ''3''"
  "toLowerChar CHR ''4'' = CHR ''4''" "toLowerChar CHR ''5'' = CHR ''5''"
  "toLowerChar CHR ''6'' = CHR ''6''" "toLowerChar CHR ''7'' = CHR ''7''"
  "toLowerChar CHR ''8'' = CHR ''8''" "toLowerChar CHR ''9'' = CHR ''9''"
  "toLowerChar CHR '' '' = CHR '' ''" "toLowerChar CHR ''/'' = CHR ''/''"
  "toLowerChar CHR ''-'' = CHR ''-''" "toLowerChar CHR '':'' = CHR '':''"
  "digitValue CHR ''0'' = 0" "digitValue CHR ''1'' = 1" "digitValue CHR ''2'' = 2"
  "digitValue CHR ''3'' = 3" "digitValue CHR ''4'' = 4" "digitValue CHR ''5'' = 5"
  "digitValue CHR ''6'' = 6" "digitValue CHR ''7'' = 7" "digitValue CHR ''8'' = 8"
  "digitValue CHR ''9'' = 9"
  by code_simp+

lemma canon_False: "canon False c = c"
  by (simp add: canon_def)

lemmas rx_eval =
  canon_False test_def exec_def seqs_def str_def opt_def oneOrMore_def ws1_def ws0_def
  remaining_def capture_def atBoundary_def grp_def apostrophe_def char_facts

lemmas text_eval =
  rx_eval hourPattern_def minutePattern_def hourNumber_def minuteNumber_def parseDuration_def
  parseInt_def toLowerCase_def dayPattern_def daysOfWeek_def datePattern_def

section \<open>The intent classifier and the duration parser: proofs\<close>

text \<open>
  C4 (the code departs from it). The claim, and the repository's own tests
  (tests/unit/natural-language.test.ts, "should detect block time";
  tests/functional/availability-scenarios.test.ts), say that the query
  "block 2 hours for deep work" has the intent \<open>block\<close>. No pattern of any category
  matches it (the first pattern of \<open>block\<close> asks for "time" or "out" after "block"), so
  \<open>detectIntent\<close> returns the default \<open>list\<close>. \<open>parseDuration("2 hours")\<close> is 120, as
  claimed.
\<close>

theorem detectIntent_block_two_hours:
  "detectIntent ''block 2 hours for deep work'' = ListCmd
   \<and> parseDuration ''2 hours'' = Some 120"
  by (simp add: detectIntent_def INTENT_PATTERNS_def text_eval)



lemma parseDuration_examples:
  "parseDuration ''2 hours 30 minutes'' = Some 150"
  "parseDuration ''30 minutes 2 hours'' = Some 150"
  "parseDuration ''1 hr'' = Some 60"
  "parseDuration ''15 min'' = Some 15"
  "parseDuration ''invalid'' = None"
  by (simp_all add: text_eval)

lemma detect_none:
  "\<forall>(intent, patterns)\<in>set tbl. \<forall>p\<in>set patterns. \<not> test True p query
     \<Longrightarrow> detect tbl query = ListCmd"
  by (induction tbl query rule: detect.induct) (auto simp: list_ex_iff)

text \<open>
  C10. \<open>detectIntent\<close> is total: matching a pattern always ends (a star runs at most as
  many rounds as characters remain), nothing in it throws, and every query gets an
  intent. Whenever no pattern of any category matches the query, that intent is \<open>list\<close>.
\<close>

theorem detectIntent_default:
  "(\<exists>intent. detectIntent query = intent)
   \<and> ((\<forall>(intent, patterns)\<in>set INTENT_PATTERNS. \<forall>p\<in>set patterns. \<not> test True p query)
        \<longrightarrow> detectIntent query = ListCmd)"
  using detect_none[of INTENT_PATTERNS query] by (simp add: detectIntent_def)

theorem detectIntent_default_witness:
  "list_all (\<lambda>(intent, patterns). list_all (\<lambda>p. \<not> test True p ''hello there'') patterns)
     INTENT_PATTERNS
   \<and> detectIntent ''hello there'' = ListCmd"
proof -
  have none: "list_all (\<lambda>(intent, patterns). list_all (\<lambda>p. \<not> test True p ''hello there'') patterns)
     INTENT_PATTERNS"
    by (simp add: INTENT_PATTERNS_def text_eval)
  then have "\<forall>(intent, patterns)\<in>set INTENT_PATTERNS. \<forall>p\<in>set patterns. \<not> test True p ''hello there''"
    by (simp add: list_all_iff case_prod_beta)
  with detectIntent_default[of "''hello there''"] none show ?thesis by blast
qed

section \<open>Dates in text: proofs\<close>

lemma startOfDay_local: "getStartOfDay tz t + tz = (t + tz) div msPerDay * msPerDay"
proof -
  have "getStartOfDay tz t + tz = (t + tz) - (t + tz) mod msPerDay"
    by (simp add: getStartOfDay_def)
  also have "\<dots> = (t + tz) div msPerDay * msPerDay"
    by (rule minus_mod_eq_div_mult)
  finally show ?thesis .
qed

lemma getStartOfDay_isMidnight: "isMidnight tz (getStartOfDay tz t)"
  by (simp add: isMidnight_def startOfDay_local)

lemma getStartOfDay_addDays: "getStartOfDay tz (addDays t k) = getStartOfDay tz t + k * msPerDay"
proof -
  have "(t + k * msPerDay + tz) mod msPerDay = (t + tz + k * msPerDay) mod msPerDay"
    by (simp add: algebra_simps)
  also have "\<dots> = (t + tz) mod msPerDay" by (rule mod_mult_self1)
  finally show ?thesis by (simp add: getStartOfDay_def addDays_def)
qed

lemma getDay_range: "0 \<le> getDay tz t \<and> getDay tz t < 7"
  by (simp add: getDay_def)

lemma getDay_shift: "getDay tz (getStartOfDay tz t + k * msPerDay) = (getDay tz t + k) mod 7"
proof -
  let ?q = "(t + tz) div msPerDay"
  have "getStartOfDay tz t + k * msPerDay + tz = (?q + k) * msPerDay"
    using startOfDay_local[of tz t] by (simp add: algebra_simps)
  then have "(getStartOfDay tz t + k * msPerDay + tz) div msPerDay = ?q + k"
    by (simp add: msPerDay_def)
  then have "getDay tz (getStartOfDay tz t + k * msPerDay) = (?q + k + 4) mod 7"
    by (simp add: getDay_def)
  also have "\<dots> = (?q + 4 + k) mod 7" by (simp add: algebra_simps)
  also have "\<dots> = ((?q + 4) mod 7 + k) mod 7"
    by (rule mod_add_left_eq[symmetric])
  finally show ?thesis by (simp add: getDay_def)
qed

lemma daysUntilDay_range:
  assumes "0 \<le> target" "target < 7" "0 \<le> current" "current < 7"
  shows "1 \<le> daysUntilDay target current \<and> daysUntilDay target current \<le> 7
   \<and> (current + daysUntilDay target current) mod 7 = target"
proof (cases "target - current \<le> 0")
  case True
  then have d: "daysUntilDay target current = target - current + 7"
    by (simp add: daysUntilDay_def)
  have "(current + (target - current + 7)) mod 7 = (target + 7) mod 7" by (simp add: algebra_simps)
  also have "\<dots> = target" using assms by simp
  finally show ?thesis using assms True d by simp
next
  case False
  then have d: "daysUntilDay target current = target - current"
    by (simp add: daysUntilDay_def)
  have "(current + (target - current)) mod 7 = target" using assms by simp
  then show ?thesis using assms False d by simp
qed

lemma parseDateExpression_midnight:
  "parseDateExpression H text = Some d \<Longrightarrow> isMidnight (hostTz H) d"
  by (auto simp: parseDateExpression_def Let_def getStartOfDay_isMidnight
        split: if_splits option.splits)

lemma str_matches:
  "st' \<in> set (rmatch False (str w) (p, s, caps)) \<Longrightarrow>
   take (length w) s = w \<and> length w \<le> length s \<and> fst (snd st') = drop (length w) s \<and> snd (snd st') = caps"
proof (induction w arbitrary: p s)
  case Nil
  then show ?case by (simp add: str_def)
next
  case (Cons c w)
  show ?case
  proof (cases s)
    case Nil
    with Cons.prems show ?thesis by (simp add: str_def)
  next
    case (Cons x xs)
    with Cons.prems have x: "x = c" and rest: "st' \<in> set (rmatch False (str w) (Some x, xs, caps))"
      by (auto simp: str_def canon_False split: if_splits)
    from Cons.IH[OF rest] x Cons show ?thesis by simp
  qed
qed

lemma alts_str_matches:
  "st' \<in> set (rmatch False (alts (map str ws)) (p, s, caps)) \<Longrightarrow> ws \<noteq> [] \<Longrightarrow>
   \<exists>w\<in>set ws. take (length w) s = w \<and> length w \<le> length s
      \<and> fst (snd st') = drop (length w) s \<and> snd (snd st') = caps"
proof (induction ws)
  case Nil
  then show ?case by simp
next
  case (Cons w ws)
  show ?case
  proof (cases ws)
    case Nil
    with Cons.prems str_matches[of st' w p s caps] show ?thesis by simp
  next
    case (Cons v vs)
    with Cons.prems(1) consider
      "st' \<in> set (rmatch False (str w) (p, s, caps))"
      | "st' \<in> set (rmatch False (alts (map str ws)) (p, s, caps))"
      by auto
    then show ?thesis
    proof cases
      case 1
      from str_matches[OF 1] show ?thesis by simp
    next
      case 2
      from Cons.IH[OF 2] Cons show ?thesis by auto
    qed
  qed
qed

lemma exec_from_member:
  "exec_from ci r p s = Some m \<Longrightarrow> \<exists>p' s'. m \<in> set (rmatch ci r (p', s', []))"
proof (induction s arbitrary: p)
  case Nil
  show ?case
  proof (cases "rmatch ci r (p, [], [])")
    case Nil
    with Nil.prems show ?thesis by simp
  next
    case (Cons a as)
    with Nil.prems have "m = a" by simp
    with Cons show ?thesis by (metis list.set_intros(1))
  qed
next
  case (Cons x xs)
  show ?case
  proof (cases "rmatch ci r (p, x # xs, [])")
    case Nil
    with Cons.prems have "exec_from ci r (Some x) xs = Some m" by simp
    from Cons.IH[OF this] show ?thesis .
  next
    case (Cons a as)
    with Cons.prems have "m = a" by simp
    with Cons show ?thesis by (metis list.set_intros(1))
  qed
qed

lemma dayPattern_names:
  assumes "exec False dayPattern s = Some dayMatch"
  shows "grp dayMatch 1 \<in> set daysOfWeek"
proof -
  from assms obtain m where m: "exec_from False dayPattern None s = Some m"
    and dm: "dayMatch = snd (snd m)"
    by (auto simp: exec_def)
  from exec_from_member[OF m] obtain p' s' where
    mem: "m \<in> set (rmatch False dayPattern (p', s', []))" by blast
  then obtain st' where st': "st' \<in> set (rmatch False (alts (map str daysOfWeek)) (p', s', []))"
    and mc: "m = capture 1 (p', s', []) st'"
    by (auto simp: dayPattern_def)
  have ne: "daysOfWeek \<noteq> []" by (simp add: daysOfWeek_def)
  from alts_str_matches[OF st' ne] obtain w where w: "w \<in> set daysOfWeek"
    and tk: "take (length w) s' = w" and le: "length w \<le> length s'"
    and rest: "fst (snd st') = drop (length w) s'" and caps: "snd (snd st') = []"
    by blast
  obtain a b c where abc: "st' = (a, b, c)" by (cases st')
  with rest caps have "b = drop (length w) s'" "c = []" by simp_all
  with mc abc le tk have "snd (snd m) = [(1, w)]"
    by (simp add: capture_def)
  with dm w show ?thesis by (simp add: grp_def)
qed

lemma indexOf_range: "x \<in> set xs \<Longrightarrow> 0 \<le> indexOf xs x \<and> indexOf xs x < int (length xs)"
  by (induction xs) (auto simp: Let_def)

text \<open>The exported function follows the order of the claim.\<close>

lemma parseDateExpression_resolution:
  fixes H :: host and input :: string
  defines "tz \<equiv> hostTz H" and "lowerText \<equiv> toLowerCase input"
  shows
    "includesStr lowerText ''today''
       \<Longrightarrow> parseDateExpression H input = Some (getStartOfDay tz (hostNow H))"
    "\<not> includesStr lowerText ''today'' \<Longrightarrow> includesStr lowerText ''tomorrow''
       \<Longrightarrow> parseDateExpression H input = Some (getStartOfDay tz (hostNow H) + msPerDay)"
    "\<not> includesStr lowerText ''today'' \<Longrightarrow> \<not> includesStr lowerText ''tomorrow''
       \<Longrightarrow> exec False dayPattern lowerText = Some dayMatch
       \<Longrightarrow> \<exists>k. 1 \<le> k \<and> k \<le> 7
             \<and> parseDateExpression H input = Some (getStartOfDay tz (hostNow H) + k * msPerDay)
             \<and> getDay tz (getStartOfDay tz (hostNow H) + k * msPerDay)
                 = indexOf daysOfWeek (grp dayMatch 1)"
    "\<not> includesStr lowerText ''today'' \<Longrightarrow> \<not> includesStr lowerText ''tomorrow''
       \<Longrightarrow> exec False dayPattern lowerText = None
       \<Longrightarrow> exec False datePattern input = Some dateMatch
       \<Longrightarrow> parseDateExpression H input
           = Some (getStartOfDay tz
               (hostNewDate H
                  (case map_of dateMatch 3 of Some y \<Rightarrow> int (parseInt y)
                   | None \<Rightarrow> hostFullYear H (hostNow H))
                  (int (parseInt (grp dateMatch 1)) - 1)
                  (int (parseInt (grp dateMatch 2)))))"
    "\<not> includesStr lowerText ''today'' \<Longrightarrow> \<not> includesStr lowerText ''tomorrow''
       \<Longrightarrow> exec False dayPattern lowerText = None
       \<Longrightarrow> exec False datePattern input = None
       \<Longrightarrow> parseDateExpression H input = None"
proof -
  show "includesStr lowerText ''today''
       \<Longrightarrow> parseDateExpression H input = Some (getStartOfDay tz (hostNow H))"
    by (simp add: parseDateExpression_def tz_def lowerText_def)
  show "\<not> includesStr lowerText ''today'' \<Longrightarrow> includesStr lowerText ''tomorrow''
       \<Longrightarrow> parseDateExpression H input = Some (getStartOfDay tz (hostNow H) + msPerDay)"
    by (simp add: parseDateExpression_def tz_def lowerText_def getStartOfDay_addDays)
  show "\<exists>k. 1 \<le> k \<and> k \<le> 7
             \<and> parseDateExpression H input = Some (getStartOfDay tz (hostNow H) + k * msPerDay)
             \<and> getDay tz (getStartOfDay tz (hostNow H) + k * msPerDay)
                 = indexOf daysOfWeek (grp dayMatch 1)"
    if a: "\<not> includesStr lowerText ''today''" "\<not> includesStr lowerText ''tomorrow''"
      and m: "exec False dayPattern lowerText = Some dayMatch"
  proof -
    let ?target = "indexOf daysOfWeek (grp dayMatch 1)"
    let ?current = "getDay tz (hostNow H)"
    let ?k = "daysUntilDay ?target ?current"
    from indexOf_range[OF dayPattern_names[OF m]]
    have t: "0 \<le> ?target" "?target < 7" by (simp_all add: daysOfWeek_def)
    from daysUntilDay_range[OF t] getDay_range[of tz "hostNow H"]
    have k: "1 \<le> ?k" "?k \<le> 7" "(?current + ?k) mod 7 = ?target" by simp_all
    have "parseDateExpression H input = Some (getStartOfDay tz (hostNow H) + ?k * msPerDay)"
      using a m by (simp add: parseDateExpression_def tz_def lowerText_def getStartOfDay_addDays Let_def)
    moreover have "getDay tz (getStartOfDay tz (hostNow H) + ?k * msPerDay) = ?target"
      using k(3) by (simp add: getDay_shift)
    ultimately show ?thesis using k(1,2) by blast
  qed
  show "\<not> includesStr lowerText ''today'' \<Longrightarrow> \<not> includesStr lowerText ''tomorrow''
       \<Longrightarrow> exec False dayPattern lowerText = None
       \<Longrightarrow> exec False datePattern input = Some dateMatch
       \<Longrightarrow> parseDateExpression H input
           = Some (getStartOfDay tz
               (hostNewDate H
                  (case map_of dateMatch 3 of Some y \<Rightarrow> int (parseInt y)
                   | None \<Rightarrow> hostFullYear H (hostNow H))
                  (int (parseInt (grp dateMatch 1)) - 1)
                  (int (parseInt (grp dateMatch 2)))))"
    by (simp add: parseDateExpression_def tz_def lowerText_def)
  show "\<not> includesStr lowerText ''today'' \<Longrightarrow> \<not> includesStr lowerText ''tomorrow''
       \<Longrightarrow> exec False dayPattern lowerText = None
       \<Longrightarrow> exec False datePattern input = None
       \<Longrightarrow> parseDateExpression H input = None"
    by (simp add: parseDateExpression_def tz_def lowerText_def)
qed

lemma parseDateExpression_examples:
  "parseDateExpression H ''1/15'' = Some (getStartOfDay (hostTz H) (hostNewDate H (hostFullYear H (hostNow H)) 0 15))"
  "parseDateExpression (H\<lparr>hostTz := 0, hostNow := 1705314600000\<rparr>) ''next friday'' = Some 1705622400000"
  "parseDateExpression (H\<lparr>hostTz := 0, hostNow := 1705314600000\<rparr>) ''on monday'' = Some 1705881600000"
  "parseDateExpression H ''someday'' = None"
  by (simp_all add: parseDateExpression_def text_eval addDays_def msPerDay_def getStartOfDay_def
        getDay_def daysUntilDay_def Let_def)

text \<open>
  C8 (the code departs from it). The claim describes the exported \<open>parseDateExpression\<close>
  of utils/date-utils.ts. The private function of the same name in
  utils/natural-language.ts, the one \<open>extractEntities\<close> calls, has no numeric pattern and
  normalizes to midnight for "today" only: "1/15/2024" gives \<open>null\<close> there, and at
  10:30 on 15 January 2024 (host on UTC) "tomorrow" gives 10:30 on the 16th, where the
  exported function gives the date and midnight of the 16th.
\<close>

theorem nl_parseDateExpression_departs:
  "nl_parseDateExpression H ''1/15/2024'' = None
   \<and> parseDateExpression H ''1/15/2024''
       = Some (getStartOfDay (hostTz H) (hostNewDate H 2024 0 15))
   \<and> nl_parseDateExpression (H\<lparr>hostTz := 0, hostNow := 1705314600000\<rparr>) ''tomorrow''
       = Some 1705401000000
   \<and> \<not> isMidnight 0 1705401000000
   \<and> parseDateExpression (H\<lparr>hostTz := 0, hostNow := 1705314600000\<rparr>) ''tomorrow''
       = Some 1705363200000"
proof -
  have "nl_parseDateExpression H ''1/15/2024'' = None"
    by (simp add: nl_parseDateExpression_def text_eval)
  moreover have "parseDateExpression H ''1/15/2024''
       = Some (getStartOfDay (hostTz H) (hostNewDate H 2024 0 15))"
    by (simp add: parseDateExpression_def text_eval)
  moreover have "nl_parseDateExpression (H\<lparr>hostTz := 0, hostNow := 1705314600000\<rparr>) ''tomorrow''
       = Some 1705401000000"
    by (simp add: nl_parseDateExpression_def text_eval addDays_def msPerDay_def)
  moreover have "\<not> isMidnight 0 1705401000000"
    by (simp add: isMidnight_def msPerDay_def)
  moreover have "parseDateExpression (H\<lparr>hostTz := 0, hostNow := 1705314600000\<rparr>) ''tomorrow''
       = Some 1705363200000"
    by (simp add: parseDateExpression_def text_eval addDays_def msPerDay_def getStartOfDay_def)
  ultimately show ?thesis by (intro conjI)
qed

section \<open>Double arithmetic: proofs\<close>










lemma double_facts:
  "fdiv 180 60 = 3" "fdiv 60 60 = 1" "fdiv 120 60 = 2" "fsub 3 1 = 2" "fsub 2 2 = 0"
  "fsub (fsub (fdiv 3 60) (fdiv 1 60)) (fdiv 2 60) = 1 / 2 ^ 57"
  by code_simp+

section \<open>The time usage analysis: proofs\<close>


lemma isMeeting_examples:
  "isMeetingEvent (meetingEvent s m)" "\<not> isMeetingEvent (focusEvent s m)"
  by (simp_all add: isMeetingEvent_def meetingEvent_def focusEvent_def meetingKeywords_def
        toLowerCase_def char_facts)

lemma example_durations:
  "getDurationMinutes (evStart (meetingEvent s m)) (evEnd (meetingEvent s m)) = m"
  "getDurationMinutes (evStart (focusEvent s m)) (evEnd (focusEvent s m)) = m"
  by (simp_all add: meetingEvent_def focusEvent_def getDurationMinutes_def)

lemmas usage_eval =
  analyzeTimeUsage_def summarize_def Let_def noTotals_def isMeeting_examples example_durations
  double_facts

text \<open>
  C5 (as stated, refuted). Host on UTC, window of one day, a 60-minute event with one
  attendee at 9:00 and a 120-minute event titled "focus block" at 14:00: the analysis
  returns \<open>freeHours = 0\<close>, not 21.
\<close>

theorem analyzeTimeUsage_free_counterexample:
  "analyzeTimeUsage 0 (\<lambda>startDate endDate. Success [meetingEvent 32400000 60, focusEvent 50400000 120])
      0 86400000
     = Success (summarize 0 [meetingEvent 32400000 60, focusEvent 50400000 120])
   \<and> freeHours (summarize 0 [meetingEvent 32400000 60, focusEvent 50400000 120]) = 0
   \<and> freeHours (summarize 0 [meetingEvent 32400000 60, focusEvent 50400000 120]) \<noteq> 21"
  by (simp add: usage_eval)

text \<open>
  C5 (amended). For an event list holding one 60-minute event with one attendee and one
  120-minute event titled "focus block", in any time zone and over any window, the
  analysis returns \<open>meetingHours = 1\<close>, \<open>focusHours = 2\<close>, \<open>meetingCount = 1\<close>,
  \<open>totalHours = 3\<close> (the sum of the event durations, not the length of the window) and
  \<open>freeHours = max(0, 3 - 1 - 2) = 0\<close>.
\<close>

theorem analyzeTimeUsage_example:
  "analyzeTimeUsage tz (\<lambda>startDate endDate. Success [meetingEvent s1 60, focusEvent s2 120])
      windowStart windowEnd
     = Success (summarize tz [meetingEvent s1 60, focusEvent s2 120])
   \<and> meetingHours (summarize tz [meetingEvent s1 60, focusEvent s2 120]) = 1
   \<and> focusHours (summarize tz [meetingEvent s1 60, focusEvent s2 120]) = 2
   \<and> meetingCount (summarize tz [meetingEvent s1 60, focusEvent s2 120]) = 1
   \<and> totalHours (summarize tz [meetingEvent s1 60, focusEvent s2 120]) = 3
   \<and> freeHours (summarize tz [meetingEvent s1 60, focusEvent s2 120]) = 0"
  by (simp add: usage_eval)




end
